theory Spec2Isabelle
  imports Main
begin

section \<open>Data model of the service (service/handler.go)\<close>

text \<open>
  Values of Go's \<open>interface{}\<close> that hold decoded JSON are kept opaque: they are values of
  a type parameter \<open>'j\<close>, and \<open>None\<close> is the nil interface (the zero value, and what JSON
  \<open>null\<close> decodes to). A Go \<open>error\<close> is the text its \<open>Error()\<close> method returns;
  \<open>None\<close> is the nil error. Fields carry a prefix where two structs of the source
  share a field name:
  \<open>hreq_\<close> for \<open>httpRequest\<close>, \<open>resp_\<close> for \<open>response\<close>, \<open>succ_\<close> for
  \<open>httpSuccessResponse\<close>, \<open>wh_\<close> for \<open>webhookResponse\<close>.
\<close>

record 'j httpRequest =
  hreq_URL :: string
  hreq_Body :: "'j option"

record 'j httpSuccessResponse =
  succ_StatusCode :: string
  succ_Body :: "'j option"

record httpErrorResponse =
  Message :: string

record 'j httpBatchRequest =
  breq_Batch :: "'j httpRequest list"

record 'j httpBatchResponseBody =
  Successes :: "string \<rightharpoonup> 'j httpSuccessResponse"
  Errors :: "string \<rightharpoonup> httpErrorResponse"

record 'j httpBatchResponse =
  bresp_Batch :: "'j httpBatchResponseBody"

record 'j response =
  resp_URL :: string
  resp_StatusCode :: string
  resp_Body :: "'j option"
  resp_Error :: "string option"

record 'j webhookResponse =
  wh_Date :: int
  wh_ID :: string
  wh_Body :: "'j option"

text \<open>
  What \<open>Application.Post(url, data, out)\<close> leaves behind when it returns: the status code,
  the value now stored in \<open>out\<close>, and the error.
\<close>

record 'j post_result =
  post_statusCode :: int
  post_out :: "'j option"
  post_err :: "string option"

text \<open>The data handed to \<open>req.Reply\<close>: one of the three reply structs.\<close>

datatype 'j reply_data =
    SuccessData "'j httpSuccessResponse"
  | ErrorData httpErrorResponse
  | BatchData "'j httpBatchResponse"

text \<open>
  The effects of the handlers, in program order: a relay call \<open>s.webman.Post(url, data, _)\<close>,
  a send \<open>responseC <- resp\<close>, an \<open>EmitEvent(name, data)\<close>, a \<open>req.Reply(key, data)\<close> and a
  log line.
\<close>

datatype 'j action =
    Call string "'j option"
  | Send "'j response"
  | Emit string "'j webhookResponse"
  | Reply string "'j reply_data"
  | Printf string

text \<open>
  The \<open>Service\<close> struct, as far as the handlers use it: its \<open>webman\<close> (interface
  \<open>Application\<close>) and its \<open>mesgService\<close> (interface \<open>ServiceProvider\<close>).
  The first argument of \<open>Post\<close> numbers the call (the position of the request in the
  batch; 0 for the single task): the network may answer two equal requests differently.
  \<open>Post\<close> gives \<open>None\<close> when the call never returns. \<open>EmitEvent\<close> gives the error
  the publisher returns.
\<close>

record 'j Service =
  Post :: "nat \<Rightarrow> string \<Rightarrow> 'j option \<Rightarrow> 'j post_result option"
  EmitEvent :: "string \<Rightarrow> 'j webhookResponse \<Rightarrow> string option"

text \<open>
  A \<open>mesg.Request\<close>, by what its methods return: \<open>Get\<close> into an \<open>httpRequest\<close>, \<open>Get\<close>
  into an \<open>httpBatchRequest\<close> (\<open>Inl\<close> the decoding error), and the error of
  \<open>Reply(key, data)\<close>.
\<close>

record 'j Request =
  Get_httpRequest :: "string + 'j httpRequest"
  Get_httpBatchRequest :: "string + 'j httpBatchRequest"
  Reply_error :: "string \<Rightarrow> 'j reply_data \<Rightarrow> string option"

section \<open>Formatting a status code: \<open>fmt.Sprintf("%d", statusCode)\<close>\<close>

definition digit :: "nat \<Rightarrow> char" where
  "digit d = ''0123456789'' ! d"

fun decimal :: "nat \<Rightarrow> string" where
  "decimal n = (if n < 10 then [digit n] else decimal (n div 10) @ [digit (n mod 10)])"

declare decimal.simps [simp del]

definition Sprintf_d :: "int \<Rightarrow> string" where
  "Sprintf_d i = (if i < 0 then CHR ''-'' # decimal (nat (- i)) else decimal (nat i))"

section \<open>The relay call of the handlers: \<open>doPOSTRequest\<close>\<close>

text \<open>
  \<open>doPOSTRequest\<close> calls \<open>Post\<close> once and sends one \<open>response\<close> on \<open>responseC\<close>. Its
  trace is the call followed by what it sends; when \<open>Post\<close> never returns the trace ends
  after the call.
\<close>

definition doPOSTRequest ::
  "(string \<Rightarrow> 'j option \<Rightarrow> 'j post_result option) \<Rightarrow> 'j httpRequest \<Rightarrow> 'j action list" where
  "doPOSTRequest post hreq =
     (let resp = \<lparr>resp_URL = hreq_URL hreq, resp_StatusCode = [], resp_Body = None,
                  resp_Error = None\<rparr>
      in Call (hreq_URL hreq) (hreq_Body hreq) #
         (case post (hreq_URL hreq) (hreq_Body hreq) of
            None \<Rightarrow> []
          | Some r \<Rightarrow>
              (let resp = resp\<lparr>resp_Body := post_out r\<rparr>
               in if post_err r \<noteq> None
                  then [Send (resp\<lparr>resp_Error := post_err r\<rparr>)]
                  else [Send (resp\<lparr>resp_StatusCode := Sprintf_d (post_statusCode r)\<rparr>)])))"

text \<open>The responses a trace sends on the channel, in order.\<close>

fun sends :: "'j action \<Rightarrow> 'j response list" where
  "sends (Send resp) = [resp]"
| "sends _ = []"

definition sent :: "'j action list \<Rightarrow> 'j response list" where
  "sent tr = concat (map sends tr)"

section \<open>The task handlers (service/handler.go)\<close>

text \<open>
  \<open>req.Reply(key, data)\<close> with the log line written when it fails; every reply of the
  handlers has this shape.
\<close>

definition reply :: "'j Request \<Rightarrow> string \<Rightarrow> 'j reply_data \<Rightarrow> 'j action list" where
  "reply req key data =
     Reply key data #
     (case Reply_error req key data of
        None \<Rightarrow> []
      | Some err \<Rightarrow> [Printf (''error while reply: '' @ err)])"

text \<open>
  \<open>executeHandler\<close> calls \<open>doPOSTRequest\<close> itself, on a channel of capacity 1, and
  receives once. The result is \<open>None\<close> when the handler never returns: with nothing
  sent the receive blocks, and a second send would block \<open>doPOSTRequest\<close>.
\<close>

definition executeHandler :: "'j Service \<Rightarrow> 'j Request \<Rightarrow> 'j action list option" where
  "executeHandler s req =
     (case Get_httpRequest req of
        Inl err \<Rightarrow>
          Some (reply req ''error''
                  (ErrorData \<lparr>Message = ''err while decoding input data: '' @ err\<rparr>))
      | Inr hreq \<Rightarrow>
          (let tr = doPOSTRequest (Post s 0) hreq
           in case sent tr of
                [resp] \<Rightarrow>
                  (case resp_Error resp of
                     Some err \<Rightarrow>
                       Some (tr @ reply req ''error''
                               (ErrorData \<lparr>Message =
                                  ''err while performing the post request: '' @ err\<rparr>))
                   | None \<Rightarrow>
                       Some (tr @ reply req ''success''
                               (SuccessData \<lparr>succ_StatusCode = resp_StatusCode resp,
                                             succ_Body = resp_Body resp\<rparr>)))
              | _ \<Rightarrow> None))"

text \<open>The body of the receive loop of \<open>batchExecuteHandler\<close>, for one received response.\<close>

definition collect :: "'j response \<Rightarrow> 'j httpBatchResponse \<Rightarrow> 'j httpBatchResponse" where
  "collect resp hresp =
     (case resp_Error resp of
        Some err \<Rightarrow>
          hresp\<lparr>bresp_Batch := (bresp_Batch hresp)
            \<lparr>Errors := (Errors (bresp_Batch hresp))(resp_URL resp \<mapsto> \<lparr>Message = err\<rparr>)\<rparr>\<rparr>
      | None \<Rightarrow>
          hresp\<lparr>bresp_Batch := (bresp_Batch hresp)
            \<lparr>Successes := (Successes (bresp_Batch hresp))(resp_URL resp \<mapsto>
               \<lparr>succ_StatusCode = resp_StatusCode resp, succ_Body = resp_Body resp\<rparr>)\<rparr>\<rparr>)"

text \<open>
  The receive loop \<open>for i := 0; i < totalReqs; i++ { resp := <-responseC; ... }\<close>. The first
  argument counts the iterations left, the second is what arrives on the channel, in
  order. A receive on a channel on which nothing more arrives blocks forever: \<open>None\<close>.
  The loop returns the response it built and what it left on the channel.
\<close>

fun fan_in ::
  "nat \<Rightarrow> 'j response list \<Rightarrow> 'j httpBatchResponse \<Rightarrow>
   ('j httpBatchResponse \<times> 'j response list) option" where
  "fan_in 0 responseC hresp = Some (hresp, responseC)"
| "fan_in (Suc n) [] hresp = None"
| "fan_in (Suc n) (resp # responseC) hresp = fan_in n responseC (collect resp hresp)"

text \<open>
  \<open>batchExecuteHandler\<close> starts one goroutine per request, each running \<open>doPOSTRequest\<close>
  on the same unbuffered channel, and then receives \<open>len(hreq.Batch)\<close> times. The order
  in which the goroutines get to send is the scheduler's: \<open>sched\<close> lists the positions
  of the requests in that order, each position once (\<open>schedule\<close>); a position outside the
  batch stands for no goroutine. The trace lists the goroutines in that order too.
\<close>

definition schedule :: "nat \<Rightarrow> nat list \<Rightarrow> bool" where
  "schedule n sched = (distinct sched \<and> set sched = {0..<n})"

text \<open>The loop \<open>for _, hreq := range hreq.Batch { go s.doPOSTRequest(hreq, responseC) }\<close>.\<close>

definition goroutines :: "'j Service \<Rightarrow> nat list \<Rightarrow> 'j httpRequest list \<Rightarrow> 'j action list" where
  "goroutines s sched batch =
     concat (map (\<lambda>k. doPOSTRequest (Post s k) (batch ! k))
               (filter (\<lambda>k. k < length batch) sched))"

definition new_httpBatchResponse :: "'j httpBatchResponse" where
  "new_httpBatchResponse = \<lparr>bresp_Batch = \<lparr>Successes = Map.empty, Errors = Map.empty\<rparr>\<rparr>"

definition batchExecuteHandler ::
  "'j Service \<Rightarrow> nat list \<Rightarrow> 'j Request \<Rightarrow> 'j action list option" where
  "batchExecuteHandler s sched req =
     (case Get_httpBatchRequest req of
        Inl err \<Rightarrow>
          Some (reply req ''error''
                  (ErrorData \<lparr>Message = ''err while decoding batch input data: '' @ err\<rparr>))
      | Inr hreq \<Rightarrow>
          (let launched = goroutines s sched (breq_Batch hreq);
               hresp = new_httpBatchResponse;
               totalReqs = length (breq_Batch hreq)
           in case fan_in totalReqs (sent launched) hresp of
                None \<Rightarrow> None
              | Some (hresp, _) \<Rightarrow>
                  Some (launched @ reply req ''batch'' (BatchData hresp))))"

section \<open>The webhook handler (service/handler.go)\<close>

text \<open>
  \<open>json.NewDecoder(body).Decode(&out)\<close> with \<open>out\<close> nil before the call, as at both call
  sites, is a parameter: it gives the value left in \<open>out\<close> and the error. The time and
  the fresh identifier are arguments.
\<close>

definition webhookHandler ::
  "'j Service \<Rightarrow> (string \<Rightarrow> 'j option \<times> string option) \<Rightarrow> int \<Rightarrow> string \<Rightarrow> string \<Rightarrow>
   'j action list \<times> string option" where
  "webhookHandler s Decode now uuid body =
     (case Decode body of
        (out, Some err) \<Rightarrow> ([], Some ''json data payload expected'')
      | (out, None) \<Rightarrow>
          (let data = \<lparr>wh_Date = now, wh_ID = uuid, wh_Body = out\<rparr>
           in (Emit ''onRequest'' data #
               (case EmitEvent s ''onRequest'' data of
                  Some err \<Rightarrow> [Printf (''error while emitting an event: '' @ err)]
                | None \<Rightarrow> []),
               None)))"

section \<open>The web application (package webman)\<close>

text \<open>
  \<open>Webman.Post\<close> uses three library calls, taken as parameters: \<open>json.Marshal(data)\<close>
  (\<open>Inl\<close> the error, \<open>Inr\<close> the bytes), \<open>w.client.Post(url, contentType, body)\<close>
  (\<open>None\<close> when it never returns, \<open>Inl\<close> the transport error, \<open>Inr\<close> the response)
  and \<open>json.NewDecoder(resp.Body).Decode(out)\<close>.
\<close>

record http_Response =
  StatusCode :: int
  Body :: string

record 'j library =
  json_Marshal :: "'j option \<Rightarrow> string + string"
  client_Post :: "string \<Rightarrow> string \<Rightarrow> string \<Rightarrow> (string + http_Response) option"
  json_Decode :: "string \<Rightarrow> 'j option \<times> string option"

text \<open>
  The named result \<open>statusCode\<close> is 0 until a response is there; \<open>out\<close> is nil at the
  call site and stays so on the two early returns.
\<close>

definition Webman_Post :: "'j library \<Rightarrow> string \<Rightarrow> 'j option \<Rightarrow> 'j post_result option" where
  "Webman_Post lib url data =
     (case json_Marshal lib data of
        Inl err \<Rightarrow> Some \<lparr>post_statusCode = 0, post_out = None, post_err = Some err\<rparr>
      | Inr dataBytes \<Rightarrow>
          (case client_Post lib url ''application/json'' dataBytes of
             None \<Rightarrow> None
           | Some (Inl err) \<Rightarrow>
               Some \<lparr>post_statusCode = 0, post_out = None, post_err = Some err\<rparr>
           | Some (Inr resp) \<Rightarrow>
               (case json_Decode lib (Body resp) of
                  (out, err) \<Rightarrow>
                    Some \<lparr>post_statusCode = StatusCode resp, post_out = out,
                           post_err = err\<rparr>)))"

text \<open>
  The error body of the webhook server. \<open>json.Marshal\<close> writes a struct as an object
  under the keys of its \<open>json\<close> tags and a Go string as a JSON string; the bytes are kept
  as the document they spell. Marshalling a struct of strings returns no error.
\<close>

datatype document = JSON_string string | JSON_object "(string \<times> document) list"

record errorResponseMessage =
  erm_Message :: string

record errorResponse =
  er_Error :: errorResponseMessage

definition Marshal_errorResponse :: "errorResponse \<Rightarrow> string + document" where
  "Marshal_errorResponse v =
     Inr (JSON_object
            [(''error'', JSON_object [(''message'', JSON_string (erm_Message (er_Error v)))])])"

text \<open>
  An \<open>http.ResponseWriter\<close>: the header map, the status line once written, and the
  bodies handed to \<open>Write\<close>. \<open>WriteHeader\<close> counts the first time only, and a \<open>Write\<close>
  before it writes status 200 first.
\<close>

record ResponseWriter =
  Header :: "string \<rightharpoonup> string"
  status :: "int option"
  written :: "document list"

definition StatusBadRequest :: int where
  "StatusBadRequest = 400"

definition StatusAccepted :: int where
  "StatusAccepted = 202"

definition StatusOK :: int where
  "StatusOK = 200"

definition WriteHeader :: "int \<Rightarrow> ResponseWriter \<Rightarrow> ResponseWriter" where
  "WriteHeader code w = (if status w = None then w\<lparr>status := Some code\<rparr> else w)"

definition Write :: "document \<Rightarrow> ResponseWriter \<Rightarrow> ResponseWriter" where
  "Write bytes w = (WriteHeader StatusOK w)\<lparr>written := written w @ [bytes]\<rparr>"

definition new_ResponseWriter :: ResponseWriter where
  "new_ResponseWriter = \<lparr>Header = Map.empty, status = None, written = []\<rparr>"

text \<open>
  \<open>Webhook.handler\<close> runs \<open>wh.fn\<close> on the request and answers. \<open>fn\<close> gives its trace and
  its error; \<open>Write_error\<close> is the error \<open>w.Write\<close> returns for the bytes it is handed.
\<close>

definition Webhook_handler ::
  "(string \<Rightarrow> 'j action list \<times> string option) \<Rightarrow> (document \<Rightarrow> string option) \<Rightarrow>
   ResponseWriter \<Rightarrow> string \<Rightarrow> 'j action list \<times> ResponseWriter" where
  "Webhook_handler fn Write_error w r =
     (case fn r of
        (tr, Some err) \<Rightarrow>
          (let w = w\<lparr>Header := (Header w)(''Content-Type'' \<mapsto> ''application/json'')\<rparr>;
               w = WriteHeader StatusBadRequest w
           in case Marshal_errorResponse \<lparr>er_Error = \<lparr>erm_Message = err\<rparr>\<rparr> of
                Inl err \<Rightarrow>
                  (tr @ [Printf (''error while encoding error response: '' @ err)], w)
              | Inr bytes \<Rightarrow>
                  (case Write_error bytes of
                     Some err \<Rightarrow>
                       (tr @ [Printf (''error while sending http response: '' @ err)],
                        Write bytes w)
                   | None \<Rightarrow> (tr, Write bytes w)))
      | (tr, None) \<Rightarrow> (tr, WriteHeader StatusAccepted w))"

text \<open>The webhook server of the service: \<open>StartWebhook\<close> installs \<open>s.webhookHandler\<close> as \<open>fn\<close>.\<close>

definition webhook ::
  "'j Service \<Rightarrow> (string \<Rightarrow> 'j option \<times> string option) \<Rightarrow> (document \<Rightarrow> string option) \<Rightarrow>
   int \<Rightarrow> string \<Rightarrow> string \<Rightarrow> 'j action list \<times> ResponseWriter" where
  "webhook s Decode Write_error now uuid body =
     Webhook_handler (webhookHandler s Decode now uuid) Write_error new_ResponseWriter body"

text \<open>The events a trace publishes.\<close>

fun emits :: "'j action \<Rightarrow> (string \<times> 'j webhookResponse) list" where
  "emits (Emit name data) = [(name, data)]"
| "emits _ = []"

definition emitted :: "'j action list \<Rightarrow> (string \<times> 'j webhookResponse) list" where
  "emitted tr = concat (map emits tr)"

text \<open>The replies and the relay calls of a trace.\<close>

fun replies :: "'j action \<Rightarrow> (string \<times> 'j reply_data) list" where
  "replies (Reply key data) = [(key, data)]"
| "replies _ = []"

definition replied :: "'j action list \<Rightarrow> (string \<times> 'j reply_data) list" where
  "replied tr = concat (map replies tr)"

fun calls :: "'j action \<Rightarrow> (string \<times> 'j option) list" where
  "calls (Call url data) = [(url, data)]"
| "calls _ = []"

definition called :: "'j action list \<Rightarrow> (string \<times> 'j option) list" where
  "called tr = concat (map calls tr)"

section \<open>Vocabulary of the statements\<close>

text \<open>The response \<open>doPOSTRequest\<close> sends for a request when \<open>Post\<close> returned \<open>r\<close>.\<close>

definition outcome :: "'j httpRequest \<Rightarrow> 'j post_result \<Rightarrow> 'j response" where
  "outcome hreq r =
     \<lparr>resp_URL = hreq_URL hreq,
      resp_StatusCode = (if post_err r = None then Sprintf_d (post_statusCode r) else []),
      resp_Body = post_out r, resp_Error = post_err r\<rparr>"

text \<open>What \<open>Post\<close> gives for the request at position \<open>k\<close> of a batch.\<close>

definition result_of :: "'j Service \<Rightarrow> 'j httpRequest list \<Rightarrow> nat \<Rightarrow> 'j post_result option" where
  "result_of s batch k = Post s k (hreq_URL (batch ! k)) (hreq_Body (batch ! k))"

text \<open>The call at position \<open>k\<close> returned without, or with, an error.\<close>

definition succeeded :: "'j Service \<Rightarrow> 'j httpRequest list \<Rightarrow> nat \<Rightarrow> bool" where
  "succeeded s batch k = (\<exists>r. result_of s batch k = Some r \<and> post_err r = None)"

definition failed :: "'j Service \<Rightarrow> 'j httpRequest list \<Rightarrow> nat \<Rightarrow> bool" where
  "failed s batch k = (\<exists>r e. result_of s batch k = Some r \<and> post_err r = Some e)"

text \<open>
  The property of a batch response that the specification states: no URL is a key of
  both maps, and the two maps together have as many keys as the batch has distinct URLs.
\<close>

definition keys_as_claimed :: "'j httpRequest list \<Rightarrow> 'j httpBatchResponse \<Rightarrow> bool" where
  "keys_as_claimed batch hresp =
     (dom (Successes (bresp_Batch hresp)) \<inter> dom (Errors (bresp_Batch hresp)) = {} \<and>
      card (dom (Successes (bresp_Batch hresp))) + card (dom (Errors (bresp_Batch hresp))) =
        card (set (map hreq_URL batch)))"

text \<open>
  A batch response holds the record of an outcome: \<open>{message}\<close> under its URL in the
  errors map when it carries an error, \<open>{statusCode, body}\<close> under its URL in the
  successes map otherwise. Two outcomes are for the same entry when they have the same
  URL and both or neither carry an error.
\<close>

definition recorded :: "'j response \<Rightarrow> 'j httpBatchResponse \<Rightarrow> bool" where
  "recorded resp hresp =
     (case resp_Error resp of
        Some err \<Rightarrow> Errors (bresp_Batch hresp) (resp_URL resp) = Some \<lparr>Message = err\<rparr>
      | None \<Rightarrow>
          Successes (bresp_Batch hresp) (resp_URL resp) =
            Some \<lparr>succ_StatusCode = resp_StatusCode resp, succ_Body = resp_Body resp\<rparr>)"

definition same_entry :: "'j response \<Rightarrow> 'j response \<Rightarrow> bool" where
  "same_entry a b =
     (resp_URL a = resp_URL b \<and> (resp_Error a = None) = (resp_Error b = None))"

text \<open>
  Decoding a stream and validity of a text. The JSON scanner of the library is a
  parameter: for a text it gives the error, or the first JSON value of the text and the
  text left after that value. \<open>Decoder.Decode\<close> decodes the first value and does not
  look at what follows it. A text is valid JSON when it is one value with nothing but
  white space after it.
\<close>

definition white_space :: "char \<Rightarrow> bool" where
  "white_space c = (c = CHR '' '' \<or> c = CHR 0x09 \<or> c = CHR 0x0A \<or> c = CHR 0x0D)"

definition Decoder_Decode ::
  "(string \<Rightarrow> string + 'j option \<times> string) \<Rightarrow> string \<Rightarrow> 'j option \<times> string option" where
  "Decoder_Decode scan body =
     (case scan body of
        Inl err \<Rightarrow> (None, Some err)
      | Inr (v, rest) \<Rightarrow> (v, None))"

definition valid_JSON :: "(string \<Rightarrow> string + 'j option \<times> string) \<Rightarrow> string \<Rightarrow> bool" where
  "valid_JSON scan body =
     (case scan body of
        Inl err \<Rightarrow> False
      | Inr (v, rest) \<Rightarrow> list_all white_space rest)"

section \<open>Example inputs\<close>

text \<open>
  A service whose relay answers 200 with the value 1 at \<open>http://a\<close>, fails at
  \<open>http://b\<close>, hangs anywhere else, and whose event publisher fails.
\<close>

definition example_Service :: "nat Service" where
  "example_Service =
     \<lparr>Post = (\<lambda>k url data.
         if url = ''http://a''
         then Some \<lparr>post_statusCode = 200, post_out = Some 1, post_err = None\<rparr>
         else if url = ''http://b''
         then Some \<lparr>post_statusCode = 0, post_out = None,
                     post_err = Some ''connection refused''\<rparr>
         else None),
      EmitEvent = (\<lambda>name data. Some ''closed connection'')\<rparr>"

definition example_Request :: "string + nat httpRequest \<Rightarrow> nat httpRequest list \<Rightarrow> nat Request" where
  "example_Request single batch =
     \<lparr>Get_httpRequest = single, Get_httpBatchRequest = Inr \<lparr>breq_Batch = batch\<rparr>,
      Reply_error = (\<lambda>key data. None)\<rparr>"

definition example_batch :: "nat httpRequest list" where
  "example_batch =
     [\<lparr>hreq_URL = ''http://a'', hreq_Body = Some 7\<rparr>,
      \<lparr>hreq_URL = ''http://b'', hreq_Body = Some 7\<rparr>]"

definition example_Decode :: "string \<Rightarrow> nat option \<times> string option" where
  "example_Decode body =
     (if body = ''1'' then (Some 1, None) else (None, Some ''invalid character''))"

definition example_library :: "nat library" where
  "example_library =
     \<lparr>json_Marshal = (\<lambda>data. Inr ''1''),
      client_Post = (\<lambda>url contentType body.
         Some (Inr \<lparr>StatusCode = 404, Body = ''1''\<rparr>)),
      json_Decode = example_Decode\<rparr>"

text \<open>
  A service whose first relay call succeeds and whose later calls fail, and a batch
  that names one URL twice, with the response the handler builds for them.
\<close>

definition racing_Service :: "nat Service" where
  "racing_Service =
     \<lparr>Post = (\<lambda>k url data.
         if k = 0
         then Some \<lparr>post_statusCode = 200, post_out = Some 1, post_err = None\<rparr>
         else Some \<lparr>post_statusCode = 0, post_out = None,
                     post_err = Some ''connection refused''\<rparr>),
      EmitEvent = (\<lambda>name data. None)\<rparr>"

definition twice_batch :: "nat httpRequest list" where
  "twice_batch =
     [\<lparr>hreq_URL = ''http://a'', hreq_Body = Some 7\<rparr>,
      \<lparr>hreq_URL = ''http://a'', hreq_Body = Some 7\<rparr>]"

definition twice_result :: "nat httpBatchResponse" where
  "twice_result =
     \<lparr>bresp_Batch =
        \<lparr>Successes = [''http://a'' \<mapsto> \<lparr>succ_StatusCode = ''200'', succ_Body = Some 1\<rparr>],
         Errors = [''http://a'' \<mapsto> \<lparr>Message = ''connection refused''\<rparr>]\<rparr>\<rparr>"

text \<open>The response to the example batch: one success, one error.\<close>

definition example_result :: "nat httpBatchResponse" where
  "example_result =
     \<lparr>bresp_Batch =
        \<lparr>Successes = [''http://a'' \<mapsto> \<lparr>succ_StatusCode = ''200'', succ_Body = Some 1\<rparr>],
         Errors = [''http://b'' \<mapsto> \<lparr>Message = ''connection refused''\<rparr>]\<rparr>\<rparr>"

text \<open>
  An example scanner that knows the one document \<open>1\<close>: the digit 1 at the end of the
  text or before white space is the value 1, and every other text is refused. With it, a
  response writer whose \<open>Write\<close> returns no error.
\<close>

definition Write_succeeds :: "document \<Rightarrow> string option" where
  "Write_succeeds bytes = None"

definition example_scan :: "string \<Rightarrow> string + nat option \<times> string" where
  "example_scan body =
     (case body of
        [] \<Rightarrow> Inl ''EOF''
      | c # rest \<Rightarrow>
          if c = CHR ''1'' \<and> (rest = [] \<or> white_space (hd rest)) then Inr (Some 1, rest)
          else Inl ''invalid character'')"

text \<open>
  A service whose relay calls all fail, the first with another message than the later
  ones, and the response the handler builds with it for the batch that names one URL
  twice.
\<close>

definition refusing_Service :: "nat Service" where
  "refusing_Service =
     \<lparr>Post = (\<lambda>k url data.
         if k = 0
         then Some \<lparr>post_statusCode = 0, post_out = None,
                     post_err = Some ''connection refused''\<rparr>
         else Some \<lparr>post_statusCode = 0, post_out = None, post_err = Some ''timeout''\<rparr>),
      EmitEvent = (\<lambda>name data. None)\<rparr>"

definition overwritten_result :: "nat httpBatchResponse" where
  "overwritten_result =
     \<lparr>bresp_Batch =
        \<lparr>Successes = Map.empty,
         Errors = [''http://a'' \<mapsto> \<lparr>Message = ''timeout''\<rparr>]\<rparr>\<rparr>"

section \<open>Traces\<close>

lemma sent_simps:
  "sent [] = []" "sent (a # tr) = sends a @ sent tr"
  "sent (xs @ ys) = sent xs @ sent ys"
  by (simp_all add: sent_def)

lemma emitted_simps:
  "emitted [] = []" "emitted (a # tr) = emits a @ emitted tr"
  "emitted (xs @ ys) = emitted xs @ emitted ys"
  by (simp_all add: emitted_def)

lemma replied_simps:
  "replied [] = []" "replied (a # tr) = replies a @ replied tr"
  "replied (xs @ ys) = replied xs @ replied ys"
  by (simp_all add: replied_def)

lemma called_simps:
  "called [] = []" "called (a # tr) = calls a @ called tr"
  "called (xs @ ys) = called xs @ called ys"
  by (simp_all add: called_def)

lemma replied_reply: "replied (reply req key data) = [(key, data)]"
  by (cases "Reply_error req key data") (simp_all add: replied_simps reply_def)

lemma called_reply: "called (reply req key data) = []"
  by (cases "Reply_error req key data") (simp_all add: called_simps reply_def)

lemma replied_doPOSTRequest: "replied (doPOSTRequest post hreq) = []"
  by (cases "post (hreq_URL hreq) (hreq_Body hreq)")
     (simp_all add: replied_simps doPOSTRequest_def Let_def)

lemma called_doPOSTRequest:
  "called (doPOSTRequest post hreq) = [(hreq_URL hreq, hreq_Body hreq)]"
  by (cases "post (hreq_URL hreq) (hreq_Body hreq)")
     (simp_all add: called_simps doPOSTRequest_def Let_def)

lemma sent_doPOSTRequest:
  "sent (doPOSTRequest post hreq) =
     (case post (hreq_URL hreq) (hreq_Body hreq) of None \<Rightarrow> [] | Some r \<Rightarrow> [outcome hreq r])"
  by (cases "post (hreq_URL hreq) (hreq_Body hreq)")
     (simp_all add: doPOSTRequest_def sent_simps Let_def outcome_def)

section \<open>The status code as text\<close>

lemma decimal_not_Nil: "decimal n \<noteq> []"
  by (subst decimal.simps) simp

lemma Sprintf_d_not_Nil: "Sprintf_d i \<noteq> []"
  by (simp add: Sprintf_d_def decimal_not_Nil)

lemma Sprintf_d_examples:
  "Sprintf_d 200 = ''200''" "Sprintf_d 404 = ''404''" "Sprintf_d 0 = ''0''"
  "Sprintf_d (- 7) = ''-7''"
  by (simp_all add: Sprintf_d_def decimal.simps digit_def)

section \<open>The relay outcome\<close>

text \<open>
  Claim C7. Every response that \<open>doPOSTRequest\<close> sends has one of two forms: no error
  and a status code that is not empty, or an error and an empty status code. It never
  has an error together with a status code.
\<close>

theorem doPOSTRequest_one_result_form:
  "resp \<in> set (sent (doPOSTRequest post hreq)) \<Longrightarrow>
     (resp_Error resp = None \<and> resp_StatusCode resp \<noteq> []) \<or>
     (resp_Error resp \<noteq> None \<and> resp_StatusCode resp = [])"
  by (cases "post (hreq_URL hreq) (hreq_Body hreq)")
     (auto simp: sent_doPOSTRequest outcome_def Sprintf_d_not_Nil)

theorem doPOSTRequest_one_result_form_witness:
  "\<lparr>resp_URL = ''http://a'', resp_StatusCode = ''200'', resp_Body = Some 1, resp_Error = None\<rparr>
     \<in> set (sent (doPOSTRequest (Post example_Service 0) (example_batch ! 0))) \<and>
   \<lparr>resp_URL = ''http://b'', resp_StatusCode = [], resp_Body = None,
     resp_Error = Some ''connection refused''\<rparr>
     \<in> set (sent (doPOSTRequest (Post example_Service 1) (example_batch ! 1)))"
  using
    doPOSTRequest_one_result_form
      [of "\<lparr>resp_URL = ''http://a'', resp_StatusCode = ''200'', resp_Body = Some 1,
            resp_Error = None\<rparr>" "Post example_Service 0" "example_batch ! 0"]
    doPOSTRequest_one_result_form
      [of "\<lparr>resp_URL = ''http://b'', resp_StatusCode = [], resp_Body = None,
            resp_Error = Some ''connection refused''\<rparr>" "Post example_Service 1"
          "example_batch ! 1"]
  by (simp add: sent_doPOSTRequest outcome_def example_Service_def example_batch_def
      Sprintf_d_examples)

text \<open>
  Claim C6. When the relay call gets an HTTP response whose body decodes, the response
  \<open>doPOSTRequest\<close> sends has no error and carries the status code of the HTTP response,
  whatever its value, as decimal text. The relay reports an error only when marshalling
  the request failed, the transport failed or decoding the response body failed.
\<close>

theorem status_code_passed_through:
  "(json_Marshal lib (hreq_Body hreq) = Inr dataBytes \<and>
    client_Post lib (hreq_URL hreq) ''application/json'' dataBytes = Some (Inr resp) \<and>
    json_Decode lib (Body resp) = (out, None) \<longrightarrow>
      sent (doPOSTRequest (Webman_Post lib) hreq) =
        [\<lparr>resp_URL = hreq_URL hreq, resp_StatusCode = Sprintf_d (StatusCode resp),
          resp_Body = out, resp_Error = None\<rparr>]) \<and>
   (\<forall>r. Webman_Post lib (hreq_URL hreq) (hreq_Body hreq) = Some r \<longrightarrow>
      (post_err r \<noteq> None) =
        ((\<exists>e. json_Marshal lib (hreq_Body hreq) = Inl e) \<or>
         (\<exists>b e. json_Marshal lib (hreq_Body hreq) = Inr b \<and>
            client_Post lib (hreq_URL hreq) ''application/json'' b = Some (Inl e)) \<or>
         (\<exists>b rsp e. json_Marshal lib (hreq_Body hreq) = Inr b \<and>
            client_Post lib (hreq_URL hreq) ''application/json'' b = Some (Inr rsp) \<and>
            snd (json_Decode lib (Body rsp)) = Some e)))"
  by (auto simp: sent_doPOSTRequest outcome_def Webman_Post_def
      split: sum.splits option.splits prod.splits)

theorem status_code_passed_through_witness:
  "json_Marshal example_library (Some 7) = Inr ''1'' \<and>
   client_Post example_library ''http://a'' ''application/json'' ''1'' =
     Some (Inr \<lparr>StatusCode = 404, Body = ''1''\<rparr>) \<and>
   json_Decode example_library ''1'' = (Some 1, None) \<and>
   sent (doPOSTRequest (Webman_Post example_library)
           \<lparr>hreq_URL = ''http://a'', hreq_Body = Some 7\<rparr>) =
     [\<lparr>resp_URL = ''http://a'', resp_StatusCode = ''404'', resp_Body = Some 1,
       resp_Error = None\<rparr>]"
  using status_code_passed_through
    [of example_library "\<lparr>hreq_URL = ''http://a'', hreq_Body = Some 7\<rparr>" "''1''"
        "\<lparr>StatusCode = 404, Body = ''1''\<rparr>" "Some 1"]
  by (simp add: example_library_def example_Decode_def Sprintf_d_examples)

section \<open>The single task\<close>

text \<open>
  Claim C5. \<open>executeHandler\<close> replies once. When the task input does not decode, the
  reply has kind \<open>error\<close> and its message names the decoding failure, and no relay call
  is made. When the input decodes and the relay call returns an error, the reply has
  kind \<open>error\<close>. When the relay call returns without error, the reply has kind
  \<open>success\<close> and carries the status code and the response body.
\<close>

theorem executeHandler_replies:
  "(Get_httpRequest req = Inl e \<longrightarrow>
      (\<exists>tr. executeHandler s req = Some tr \<and>
         replied tr =
           [(''error'', ErrorData \<lparr>Message = ''err while decoding input data: '' @ e\<rparr>)] \<and>
         called tr = [])) \<and>
   (Get_httpRequest req = Inr hreq \<and> Post s 0 (hreq_URL hreq) (hreq_Body hreq) = Some r \<and>
    post_err r = Some e \<longrightarrow>
      (\<exists>tr. executeHandler s req = Some tr \<and>
         replied tr =
           [(''error'',
             ErrorData \<lparr>Message = ''err while performing the post request: '' @ e\<rparr>)])) \<and>
   (Get_httpRequest req = Inr hreq \<and> Post s 0 (hreq_URL hreq) (hreq_Body hreq) = Some r \<and>
    post_err r = None \<longrightarrow>
      (\<exists>tr. executeHandler s req = Some tr \<and>
         replied tr =
           [(''success'', SuccessData \<lparr>succ_StatusCode = Sprintf_d (post_statusCode r),
                                       succ_Body = post_out r\<rparr>)]))"
  by (simp add: executeHandler_def sent_doPOSTRequest outcome_def Let_def replied_simps
      replied_reply replied_doPOSTRequest called_reply)

theorem executeHandler_replies_witness:
  "replied (the (executeHandler example_Service (example_Request (Inl ''EOF'') []))) =
     [(''error'', ErrorData \<lparr>Message = ''err while decoding input data: EOF''\<rparr>)] \<and>
   replied (the (executeHandler example_Service
      (example_Request (Inr \<lparr>hreq_URL = ''http://b'', hreq_Body = Some 7\<rparr>) []))) =
     [(''error'', ErrorData \<lparr>Message =
         ''err while performing the post request: connection refused''\<rparr>)] \<and>
   replied (the (executeHandler example_Service
      (example_Request (Inr \<lparr>hreq_URL = ''http://a'', hreq_Body = Some 7\<rparr>) []))) =
     [(''success'', SuccessData \<lparr>succ_StatusCode = ''200'', succ_Body = Some 1\<rparr>)]"
  using
    executeHandler_replies [of "example_Request (Inl ''EOF'') []" "''EOF''" example_Service]
    executeHandler_replies
      [of "example_Request (Inr \<lparr>hreq_URL = ''http://b'', hreq_Body = Some 7\<rparr>) []"
          "''connection refused''" example_Service
          "\<lparr>hreq_URL = ''http://b'', hreq_Body = Some 7\<rparr>"
          "\<lparr>post_statusCode = 0, post_out = None, post_err = Some ''connection refused''\<rparr>"]
    executeHandler_replies
      [of "example_Request (Inr \<lparr>hreq_URL = ''http://a'', hreq_Body = Some 7\<rparr>) []"
          _ example_Service
          "\<lparr>hreq_URL = ''http://a'', hreq_Body = Some 7\<rparr>"
          "\<lparr>post_statusCode = 200, post_out = Some 1, post_err = None\<rparr>"]
  by (auto simp: example_Request_def example_Service_def Sprintf_d_examples)

section \<open>The webhook\<close>

text \<open>
  Claim C3, as stated, fails. The text \<open>1 x\<close> is not valid JSON, but it begins with the
  JSON value 1, which is all that \<open>Decoder.Decode\<close> reads: \<open>webhookHandler\<close> returns
  no error and emits the event, and the server answers with status 202 and no body.
\<close>

theorem webhook_accepts_JSON_prefix:
  "\<not> valid_JSON example_scan ''1 x'' \<and>
   snd (webhookHandler example_Service (Decoder_Decode example_scan) 1530000000 ''id''
          ''1 x'') = None \<and>
   emitted (fst (webhook example_Service (Decoder_Decode example_scan) Write_succeeds
                   1530000000 ''id'' ''1 x'')) =
     [(''onRequest'', \<lparr>wh_Date = 1530000000, wh_ID = ''id'', wh_Body = Some 1\<rparr>)] \<and>
   status (snd (webhook example_Service (Decoder_Decode example_scan) Write_succeeds
                  1530000000 ''id'' ''1 x'')) = Some 202 \<and>
   written (snd (webhook example_Service (Decoder_Decode example_scan) Write_succeeds
                   1530000000 ''id'' ''1 x'')) = []"
  by (simp add: valid_JSON_def Decoder_Decode_def example_scan_def white_space_def
      webhookHandler_def webhook_def Webhook_handler_def Let_def example_Service_def
      emitted_simps WriteHeader_def new_ResponseWriter_def StatusAccepted_def)

text \<open>
  Claim C3, amended. When decoding the body of a webhook request returns an error,
  \<open>webhookHandler\<close> returns the error \<open>json data payload expected\<close>, no event is
  emitted, and the server answers with status 400 and the body
  \<open>{"error":{"message":"json data payload expected"}}\<close>.
\<close>

theorem webhook_rejects_undecodable_body:
  "snd (Decode body) = Some e \<Longrightarrow>
     webhookHandler s Decode now uuid body = ([], Some ''json data payload expected'') \<and>
     emitted (fst (webhook s Decode Write_error now uuid body)) = [] \<and>
     status (snd (webhook s Decode Write_error now uuid body)) = Some 400 \<and>
     written (snd (webhook s Decode Write_error now uuid body)) =
       [JSON_object
          [(''error'',
            JSON_object [(''message'', JSON_string ''json data payload expected'')])]]"
  by (cases "Decode body"; cases
       "Write_error (JSON_object [(''error'',
            JSON_object [(''message'', JSON_string ''json data payload expected'')])])")
     (simp_all add: webhookHandler_def webhook_def Webhook_handler_def Let_def
       Marshal_errorResponse_def WriteHeader_def Write_def new_ResponseWriter_def
       StatusBadRequest_def emitted_simps)

theorem webhook_rejects_undecodable_body_witness:
  "snd (example_Decode ''{'') = Some ''invalid character'' \<and>
   webhookHandler example_Service example_Decode 1530000000 ''id'' ''{'' =
     ([], Some ''json data payload expected'') \<and>
   status (snd (webhook example_Service example_Decode (\<lambda>bytes. None) 1530000000 ''id'' ''{''))
     = Some 400"
  using webhook_rejects_undecodable_body
    [of example_Decode "''{''" "''invalid character''" example_Service 1530000000
        "''id''" "\<lambda>bytes. None"]
  by (simp add: example_Decode_def)

text \<open>
  Claim C4. When the body of a webhook request decodes as JSON, the server answers with
  status 202 and writes no body, whatever \<open>EmitEvent\<close> returns: a failure to publish the
  event changes nothing in the HTTP response.
\<close>

theorem webhook_accepts_decoded_body:
  "snd (Decode body) = None \<Longrightarrow>
     snd (webhook s Decode Write_error now uuid body) =
       \<lparr>Header = Map.empty, status = Some 202, written = []\<rparr>"
  by (cases "Decode body"; cases "EmitEvent s ''onRequest''
        \<lparr>wh_Date = now, wh_ID = uuid, wh_Body = fst (Decode body)\<rparr>")
     (simp_all add: webhookHandler_def webhook_def Webhook_handler_def Let_def
       WriteHeader_def new_ResponseWriter_def StatusAccepted_def)

theorem webhook_accepts_decoded_body_witness:
  "snd (example_Decode ''1'') = None \<and>
   EmitEvent example_Service ''onRequest''
     \<lparr>wh_Date = 1530000000, wh_ID = ''id'', wh_Body = Some 1\<rparr> = Some ''closed connection'' \<and>
   snd (webhook example_Service example_Decode (\<lambda>bytes. None) 1530000000 ''id'' ''1'') =
     \<lparr>Header = Map.empty, status = Some 202, written = []\<rparr>"
  using webhook_accepts_decoded_body
    [of example_Decode "''1''" example_Service "\<lambda>bytes. None" 1530000000 "''id''"]
  by (simp add: example_Decode_def example_Service_def)

text \<open>
  Claim C10. Every event that \<open>webhookHandler\<close> emits has the name \<open>onRequest\<close>.
\<close>

theorem webhookHandler_emits_onRequest_only:
  "\<forall>(name, data) \<in> set (emitted (fst (webhookHandler s Decode now uuid body))).
     name = ''onRequest''"
  by (cases "Decode body"; cases "snd (Decode body)"; cases "EmitEvent s ''onRequest''
        \<lparr>wh_Date = now, wh_ID = uuid, wh_Body = fst (Decode body)\<rparr>")
     (simp_all add: webhookHandler_def Let_def emitted_simps)

theorem webhookHandler_emits_onRequest_only_witness:
  "emitted (fst (webhookHandler example_Service example_Decode 1530000000 ''id'' ''1'')) =
     [(''onRequest'', \<lparr>wh_Date = 1530000000, wh_ID = ''id'', wh_Body = Some 1\<rparr>)]"
  using webhookHandler_emits_onRequest_only
    [of example_Service example_Decode 1530000000 "''id''" "''1''"]
  by (simp add: webhookHandler_def example_Decode_def example_Service_def emitted_simps)

section \<open>The batch: goroutines and the receive loop\<close>

lemma goroutines_Nil: "goroutines s sched [] = []"
  by (simp add: goroutines_def)

lemma replied_goroutines: "replied (goroutines s sched batch) = []"
proof -
  have "replied (concat (map (\<lambda>k. doPOSTRequest (Post s k) (batch ! k)) ks)) = []" for ks
    by (induction ks) (simp_all add: replied_simps replied_doPOSTRequest)
  then show ?thesis by (simp add: goroutines_def)
qed

lemma fan_in_eq:
  "fan_in n rs h =
     (if n \<le> length rs then Some (fold collect (take n rs) h, drop n rs) else None)"
proof (induction n arbitrary: rs h)
  case 0
  show ?case by simp
next
  case (Suc n)
  show ?case by (cases rs) (simp_all add: Suc.IH)
qed

lemma schedule_length: "schedule n sched \<Longrightarrow> length sched = n"
  unfolding schedule_def using distinct_card [of sched] by simp

lemma schedule_filter: "schedule n sched \<Longrightarrow> filter (\<lambda>k. k < n) sched = sched"
  unfolding schedule_def by (simp add: filter_id_conv)

lemma sent_concat_map: "sent (concat (map f ks)) = concat (map (\<lambda>k. sent (f k)) ks)"
  by (induction ks) (simp_all add: sent_simps)

lemma sent_returning:
  assumes "\<forall>k \<in> set ks. result_of s batch k \<noteq> None"
  shows "concat (map (\<lambda>k. sent (doPOSTRequest (Post s k) (batch ! k))) ks) =
         map (\<lambda>k. outcome (batch ! k) (the (result_of s batch k))) ks"
  using assms
  by (induction ks) (auto simp: sent_doPOSTRequest result_of_def)

text \<open>
  When every call returns, what arrives on the channel is the outcome of each call, once,
  in the order of the schedule.
\<close>

lemma arrivals:
  assumes "schedule (length batch) sched"
    and "\<forall>k < length batch. result_of s batch k \<noteq> None"
  shows "sent (goroutines s sched batch) =
         map (\<lambda>k. outcome (batch ! k) (the (result_of s batch k))) sched"
proof -
  have "\<forall>k \<in> set sched. result_of s batch k \<noteq> None"
    using assms by (simp add: schedule_def)
  then show ?thesis
    by (simp add: goroutines_def sent_concat_map schedule_filter [OF assms(1)] sent_returning)
qed

lemma batch_returns:
  assumes get: "Get_httpBatchRequest req = Inr hreq"
    and sch: "schedule (length (breq_Batch hreq)) sched"
    and ret: "\<forall>k < length (breq_Batch hreq). result_of s (breq_Batch hreq) k \<noteq> None"
  shows "batchExecuteHandler s sched req =
           Some (goroutines s sched (breq_Batch hreq) @
                 reply req ''batch''
                   (BatchData (fold collect (sent (goroutines s sched (breq_Batch hreq)))
                                 new_httpBatchResponse)))"
proof -
  have "length (sent (goroutines s sched (breq_Batch hreq))) = length (breq_Batch hreq)"
    by (simp add: arrivals [OF sch ret] schedule_length [OF sch])
  then show ?thesis
    by (simp add: batchExecuteHandler_def get fan_in_eq Let_def)
qed

text \<open>A call that never returns leaves the handler waiting: the model can block.\<close>

lemma short_sum:
  "\<forall>k \<in> set ks. g k \<le> (1::nat) \<Longrightarrow> k0 \<in> set ks \<Longrightarrow> g k0 = 0 \<Longrightarrow>
     sum_list (map g ks) < length ks"
proof (induction ks)
  case Nil
  then show ?case by simp
next
  case (Cons k ks)
  have le: "sum_list (map g ks) \<le> length ks"
    using Cons.prems(1) by (induction ks) (auto simp: add_le_mono)
  show ?case
  proof (cases "k0 = k")
    case True
    with Cons.prems(3) le show ?thesis by simp
  next
    case False
    with Cons have "sum_list (map g ks) < length ks" by simp
    moreover have "g k \<le> 1" using Cons.prems(1) by simp
    ultimately show ?thesis by simp
  qed
qed

lemma batch_blocks:
  assumes get: "Get_httpBatchRequest req = Inr hreq"
    and sch: "schedule (length (breq_Batch hreq)) sched"
    and hang: "k0 < length (breq_Batch hreq)" "result_of s (breq_Batch hreq) k0 = None"
  shows "batchExecuteHandler s sched req = None"
proof -
  let ?g = "\<lambda>k. length (sent (doPOSTRequest (Post s k) (breq_Batch hreq ! k)))"
  have one: "\<forall>k \<in> set sched. ?g k \<le> 1"
    by (auto simp: sent_doPOSTRequest split: option.splits)
  have mem: "k0 \<in> set sched"
    using sch hang(1) by (simp add: schedule_def)
  have zero: "?g k0 = 0"
    using hang(2) by (simp add: sent_doPOSTRequest result_of_def)
  have "length (sent (goroutines s sched (breq_Batch hreq))) = sum_list (map ?g sched)"
    by (simp add: goroutines_def sent_concat_map schedule_filter [OF sch] length_concat
        comp_def)
  also have "\<dots> < length sched"
    by (rule short_sum [OF one mem zero])
  finally have "length (sent (goroutines s sched (breq_Batch hreq))) < length (breq_Batch hreq)"
    by (simp add: schedule_length [OF sch])
  then show ?thesis
    by (simp add: batchExecuteHandler_def get fan_in_eq Let_def)
qed

text \<open>
  Claim C8. For the empty batch \<open>batchExecuteHandler\<close> makes no relay call and replies
  once, with kind \<open>batch\<close> and a response whose two maps are empty.
\<close>

theorem batchExecuteHandler_empty_batch:
  "Get_httpBatchRequest req = Inr \<lparr>breq_Batch = []\<rparr> \<Longrightarrow>
     \<exists>tr. batchExecuteHandler s sched req = Some tr \<and> called tr = [] \<and>
       replied tr =
         [(''batch'',
           BatchData \<lparr>bresp_Batch = \<lparr>Successes = Map.empty, Errors = Map.empty\<rparr>\<rparr>)]"
  by (simp add: batchExecuteHandler_def goroutines_Nil sent_simps new_httpBatchResponse_def
      replied_reply called_reply)

theorem batchExecuteHandler_empty_batch_witness:
  "Get_httpBatchRequest (example_Request (Inl ''EOF'') []) = Inr \<lparr>breq_Batch = []\<rparr> \<and>
   batchExecuteHandler example_Service [] (example_Request (Inl ''EOF'') []) =
     Some [Reply ''batch''
             (BatchData \<lparr>bresp_Batch = \<lparr>Successes = Map.empty, Errors = Map.empty\<rparr>\<rparr>)]"
  using batchExecuteHandler_empty_batch
    [of "example_Request (Inl ''EOF'') []" example_Service "[]"]
  by (simp add: example_Request_def batchExecuteHandler_def goroutines_Nil sent_simps
      new_httpBatchResponse_def reply_def)

lemma schedule_example: "schedule (length example_batch) [1, 0]"
  by (auto simp: schedule_def example_batch_def)

lemma returns_example:
  "\<forall>k < length example_batch. result_of example_Service example_batch k \<noteq> None"
  by (simp add: example_batch_def result_of_def example_Service_def less_Suc_eq numeral_2_eq_2)

lemma returns_example_each:
  "result_of example_Service example_batch 0 \<noteq> None"
  "result_of example_Service example_batch 1 \<noteq> None"
  by (simp_all add: example_batch_def result_of_def example_Service_def)

lemma Get_example:
  "Get_httpBatchRequest (example_Request single batch) = Inr \<lparr>breq_Batch = batch\<rparr>"
  by (simp add: example_Request_def)



section \<open>The keys of a batch response\<close>

lemma collect_Errors:
  "Errors (bresp_Batch (collect resp h)) =
     (case resp_Error resp of
        Some e \<Rightarrow> (Errors (bresp_Batch h))(resp_URL resp \<mapsto> \<lparr>Message = e\<rparr>)
      | None \<Rightarrow> Errors (bresp_Batch h))"
  by (simp add: collect_def split: option.splits)

lemma collect_Successes:
  "Successes (bresp_Batch (collect resp h)) =
     (case resp_Error resp of
        Some e \<Rightarrow> Successes (bresp_Batch h)
      | None \<Rightarrow> (Successes (bresp_Batch h))(resp_URL resp \<mapsto>
          \<lparr>succ_StatusCode = resp_StatusCode resp, succ_Body = resp_Body resp\<rparr>))"
  by (simp add: collect_def split: option.splits)

lemma dom_Errors_fold:
  "dom (Errors (bresp_Batch (fold collect rs h))) =
     dom (Errors (bresp_Batch h)) \<union> {resp_URL r | r. r \<in> set rs \<and> resp_Error r \<noteq> None}"
  by (induction rs arbitrary: h) (auto simp: collect_Errors split: option.splits)

lemma dom_Successes_fold:
  "dom (Successes (bresp_Batch (fold collect rs h))) =
     dom (Successes (bresp_Batch h)) \<union> {resp_URL r | r. r \<in> set rs \<and> resp_Error r = None}"
  by (induction rs arbitrary: h) (auto simp: collect_Successes split: option.splits)

lemma outcome_simps:
  "resp_URL (outcome hreq r) = hreq_URL hreq"
  "resp_Error (outcome hreq r) = post_err r"
  "resp_Body (outcome hreq r) = post_out r"
  "resp_StatusCode (outcome hreq r) =
     (if post_err r = None then Sprintf_d (post_statusCode r) else [])"
  by (simp_all add: outcome_def)

lemma succeeded_iff:
  "result_of s batch k \<noteq> None \<Longrightarrow>
     succeeded s batch k = (post_err (the (result_of s batch k)) = None)"
  by (auto simp: succeeded_def)

lemma failed_iff:
  "result_of s batch k \<noteq> None \<Longrightarrow>
     failed s batch k = (post_err (the (result_of s batch k)) \<noteq> None)"
  by (auto simp: failed_def)

lemma keys_of_batch:
  assumes sch: "schedule (length batch) sched"
    and ret: "\<forall>k < length batch. result_of s batch k \<noteq> None"
  shows "dom (Successes (bresp_Batch (fold collect (sent (goroutines s sched batch))
                 new_httpBatchResponse))) =
           {hreq_URL (batch ! k) | k. k < length batch \<and> succeeded s batch k}"
    and "dom (Errors (bresp_Batch (fold collect (sent (goroutines s sched batch))
                 new_httpBatchResponse))) =
           {hreq_URL (batch ! k) | k. k < length batch \<and> failed s batch k}"
proof -
  let ?f = "\<lambda>k. outcome (batch ! k) (the (result_of s batch k))"
  have set: "set sched = {0..<length batch}"
    using sch by (simp add: schedule_def)
  have ok: "(resp_Error (?f k) = None) = succeeded s batch k" if "k < length batch" for k
    using ret that by (simp add: outcome_simps succeeded_iff)
  have ko: "(resp_Error (?f k) \<noteq> None) = failed s batch k" if "k < length batch" for k
    using ret that by (simp add: outcome_simps failed_iff)
  have "{resp_URL r | r. r \<in> set (map ?f sched) \<and> resp_Error r = None} =
        {hreq_URL (batch ! k) | k. k < length batch \<and> succeeded s batch k}"
  proof (intro set_eqI iffI)
    fix u assume "u \<in> {resp_URL r | r. r \<in> set (map ?f sched) \<and> resp_Error r = None}"
    then obtain k where "k < length batch" "u = resp_URL (?f k)" "resp_Error (?f k) = None"
      using set by auto
    then show "u \<in> {hreq_URL (batch ! k) | k. k < length batch \<and> succeeded s batch k}"
      using ok [of k] by (auto simp: outcome_simps)
  next
    fix u assume "u \<in> {hreq_URL (batch ! k) | k. k < length batch \<and> succeeded s batch k}"
    then obtain k where k: "k < length batch" "u = hreq_URL (batch ! k)" "succeeded s batch k"
      by auto
    then have "?f k \<in> set (map ?f sched)" "resp_Error (?f k) = None" "u = resp_URL (?f k)"
      using set ok [of k] by (simp_all add: outcome_simps)
    then show "u \<in> {resp_URL r | r. r \<in> set (map ?f sched) \<and> resp_Error r = None}"
      by blast
  qed
  then show "dom (Successes (bresp_Batch (fold collect (sent (goroutines s sched batch))
                 new_httpBatchResponse))) =
           {hreq_URL (batch ! k) | k. k < length batch \<and> succeeded s batch k}"
    by (simp add: dom_Successes_fold arrivals [OF sch ret] new_httpBatchResponse_def)
  have "{resp_URL r | r. r \<in> set (map ?f sched) \<and> resp_Error r \<noteq> None} =
        {hreq_URL (batch ! k) | k. k < length batch \<and> failed s batch k}"
  proof (intro set_eqI iffI)
    fix u assume "u \<in> {resp_URL r | r. r \<in> set (map ?f sched) \<and> resp_Error r \<noteq> None}"
    then obtain k where "k < length batch" "u = resp_URL (?f k)" "resp_Error (?f k) \<noteq> None"
      using set by auto
    then show "u \<in> {hreq_URL (batch ! k) | k. k < length batch \<and> failed s batch k}"
      using ko [of k] by (auto simp: outcome_simps)
  next
    fix u assume "u \<in> {hreq_URL (batch ! k) | k. k < length batch \<and> failed s batch k}"
    then obtain k where k: "k < length batch" "u = hreq_URL (batch ! k)" "failed s batch k"
      by auto
    then have "?f k \<in> set (map ?f sched)" "resp_Error (?f k) \<noteq> None" "u = resp_URL (?f k)"
      using set ko [of k] by (simp_all add: outcome_simps)
    then show "u \<in> {resp_URL r | r. r \<in> set (map ?f sched) \<and> resp_Error r \<noteq> None}"
      by blast
  qed
  then show "dom (Errors (bresp_Batch (fold collect (sent (goroutines s sched batch))
                 new_httpBatchResponse))) =
           {hreq_URL (batch ! k) | k. k < length batch \<and> failed s batch k}"
    by (simp add: dom_Errors_fold arrivals [OF sch ret] new_httpBatchResponse_def)
qed

lemma twice_run:
  "batchExecuteHandler racing_Service [0, 1] (example_Request (Inl ''EOF'') twice_batch) =
     Some [Call ''http://a'' (Some 7),
           Send \<lparr>resp_URL = ''http://a'', resp_StatusCode = ''200'', resp_Body = Some 1,
                  resp_Error = None\<rparr>,
           Call ''http://a'' (Some 7),
           Send \<lparr>resp_URL = ''http://a'', resp_StatusCode = [], resp_Body = None,
                  resp_Error = Some ''connection refused''\<rparr>,
           Reply ''batch'' (BatchData twice_result)]"
  by (simp add: batchExecuteHandler_def example_Request_def twice_batch_def goroutines_def
      doPOSTRequest_def racing_Service_def Let_def sent_simps numeral_2_eq_2 collect_def
      new_httpBatchResponse_def reply_def twice_result_def Sprintf_d_examples)

text \<open>
  Claim C1, as stated, fails: with the URL \<open>http://a\<close> twice in the batch, the first call
  succeeding and the second failing, \<open>http://a\<close> is a key of both maps, which have two
  keys together for one distinct URL.
\<close>

theorem duplicate_URL_in_both_maps:
  "replied (the (batchExecuteHandler racing_Service [0, 1]
                   (example_Request (Inl ''EOF'') twice_batch))) =
     [(''batch'', BatchData twice_result)] \<and>
   ''http://a'' \<in> dom (Successes (bresp_Batch twice_result)) \<and>
   ''http://a'' \<in> dom (Errors (bresp_Batch twice_result)) \<and>
   card (dom (Successes (bresp_Batch twice_result))) +
     card (dom (Errors (bresp_Batch twice_result))) = 2 \<and>
   card (set (map hreq_URL twice_batch)) = 1 \<and>
   \<not> keys_as_claimed twice_batch twice_result"
  unfolding twice_run
  by (simp add: replied_simps keys_as_claimed_def twice_result_def twice_batch_def)

text \<open>
  Claim C1, amended. When every relay call of the batch returns, whatever the order of
  arrival: the keys of the successes map are the URLs of the calls that succeeded and
  the keys of the errors map are the URLs of the calls that failed. So every URL of the
  batch is a key of at least one map and the maps have no other key; the sizes of the
  two maps add up to the number of distinct URLs plus the number of URLs that are keys
  of both; and when the URLs of the batch are pairwise distinct no URL is a key of both
  and the sizes add up to the number of distinct URLs.
\<close>

theorem batch_response_keys:
  assumes get: "Get_httpBatchRequest req = Inr hreq"
    and sch: "schedule (length (breq_Batch hreq)) sched"
    and ret: "\<forall>k < length (breq_Batch hreq). result_of s (breq_Batch hreq) k \<noteq> None"
  shows "\<exists>tr hresp.
           batchExecuteHandler s sched req = Some tr \<and>
           replied tr = [(''batch'', BatchData hresp)] \<and>
           dom (Successes (bresp_Batch hresp)) =
             {hreq_URL (breq_Batch hreq ! k) | k.
                k < length (breq_Batch hreq) \<and> succeeded s (breq_Batch hreq) k} \<and>
           dom (Errors (bresp_Batch hresp)) =
             {hreq_URL (breq_Batch hreq ! k) | k.
                k < length (breq_Batch hreq) \<and> failed s (breq_Batch hreq) k} \<and>
           dom (Successes (bresp_Batch hresp)) \<union> dom (Errors (bresp_Batch hresp)) =
             set (map hreq_URL (breq_Batch hreq)) \<and>
           card (dom (Successes (bresp_Batch hresp))) + card (dom (Errors (bresp_Batch hresp))) =
             card (set (map hreq_URL (breq_Batch hreq))) +
             card (dom (Successes (bresp_Batch hresp)) \<inter> dom (Errors (bresp_Batch hresp))) \<and>
           (distinct (map hreq_URL (breq_Batch hreq)) \<longrightarrow>
              keys_as_claimed (breq_Batch hreq) hresp)"
proof -
  let ?batch = "breq_Batch hreq"
  let ?hresp = "fold collect (sent (goroutines s sched ?batch)) new_httpBatchResponse"
  let ?S = "dom (Successes (bresp_Batch ?hresp))"
  let ?E = "dom (Errors (bresp_Batch ?hresp))"
  have run: "batchExecuteHandler s sched req =
      Some (goroutines s sched ?batch @ reply req ''batch'' (BatchData ?hresp))"
    by (rule batch_returns [OF get sch ret])
  have rep: "replied (goroutines s sched ?batch @ reply req ''batch'' (BatchData ?hresp)) =
      [(''batch'', BatchData ?hresp)]"
    by (simp add: replied_simps replied_goroutines replied_reply)
  have S: "?S = {hreq_URL (?batch ! k) | k. k < length ?batch \<and> succeeded s ?batch k}"
    by (rule keys_of_batch(1) [OF sch ret])
  have E: "?E = {hreq_URL (?batch ! k) | k. k < length ?batch \<and> failed s ?batch k}"
    by (rule keys_of_batch(2) [OF sch ret])
  have either: "succeeded s ?batch k \<or> failed s ?batch k" if "k < length ?batch" for k
    using ret that by (cases "post_err (the (result_of s ?batch k))")
      (auto simp: succeeded_def failed_def)
  have never_both: "\<not> (succeeded s ?batch k \<and> failed s ?batch k)" for k
    by (auto simp: succeeded_def failed_def)
  have U: "?S \<union> ?E = set (map hreq_URL ?batch)"
  proof (intro set_eqI iffI)
    fix u assume "u \<in> ?S \<union> ?E"
    then obtain k where "k < length ?batch" "u = hreq_URL (?batch ! k)"
      unfolding S E by blast
    then show "u \<in> set (map hreq_URL ?batch)" by simp
  next
    fix u assume "u \<in> set (map hreq_URL ?batch)"
    then obtain k where k: "k < length ?batch" "u = hreq_URL (?batch ! k)"
      by (auto simp: in_set_conv_nth)
    with either [of k] show "u \<in> ?S \<union> ?E" unfolding S E by blast
  qed
  have fin: "finite ?S" "finite ?E"
    using U finite_Un [of ?S ?E] by simp_all
  have C: "card ?S + card ?E = card (set (map hreq_URL ?batch)) + card (?S \<inter> ?E)"
    using card_Un_Int [OF fin] U by simp
  have D: "keys_as_claimed ?batch ?hresp" if d: "distinct (map hreq_URL ?batch)"
  proof -
    have "?S \<inter> ?E = {}"
    proof (rule ccontr)
      assume "?S \<inter> ?E \<noteq> {}"
      then obtain u where "u \<in> ?S" "u \<in> ?E" by blast
      then obtain i j where i: "i < length ?batch" "u = hreq_URL (?batch ! i)"
          "succeeded s ?batch i"
        and j: "j < length ?batch" "u = hreq_URL (?batch ! j)" "failed s ?batch j"
        unfolding S E by blast
      have "map hreq_URL ?batch ! i = map hreq_URL ?batch ! j"
        using i j by simp
      then have "i = j"
        using d i(1) j(1) by (auto simp: distinct_conv_nth)
      with i(3) j(3) never_both show False by blast
    qed
    with C show ?thesis by (simp add: keys_as_claimed_def)
  qed
  from run rep S E U C D show ?thesis by blast
qed

theorem batch_response_keys_witness:
  "Get_httpBatchRequest (example_Request (Inl ''EOF'') example_batch) =
     Inr \<lparr>breq_Batch = example_batch\<rparr> \<and>
   schedule (length example_batch) [1, 0] \<and>
   result_of example_Service example_batch 0 \<noteq> None \<and>
   result_of example_Service example_batch 1 \<noteq> None \<and>
   distinct (map hreq_URL example_batch) \<and>
   (\<exists>tr hresp.
      batchExecuteHandler example_Service [1, 0]
        (example_Request (Inl ''EOF'') example_batch) = Some tr \<and>
      replied tr = [(''batch'', BatchData hresp)] \<and>
      dom (Successes (bresp_Batch hresp)) \<union> dom (Errors (bresp_Batch hresp)) =
        {''http://a'', ''http://b''} \<and>
      keys_as_claimed example_batch hresp)"
proof -
  have g: "Get_httpBatchRequest (example_Request (Inl ''EOF'') example_batch) =
     Inr \<lparr>breq_Batch = example_batch\<rparr>"
    by (rule Get_example)
  have d: "distinct (map hreq_URL example_batch)"
    by (simp add: example_batch_def)
  have u: "set (map hreq_URL example_batch) = {''http://a'', ''http://b''}"
    by (simp add: example_batch_def)
  have sch: "schedule (length (breq_Batch \<lparr>breq_Batch = example_batch\<rparr>)) [1, 0]"
    using schedule_example by simp
  have ret: "\<forall>k < length (breq_Batch \<lparr>breq_Batch = example_batch\<rparr>).
      result_of example_Service (breq_Batch \<lparr>breq_Batch = example_batch\<rparr>) k \<noteq> None"
    using returns_example by simp
  from batch_response_keys [OF g sch ret]
  obtain tr hresp where
    run: "batchExecuteHandler example_Service [1, 0]
        (example_Request (Inl ''EOF'') example_batch) = Some tr"
    and rep: "replied tr = [(''batch'', BatchData hresp)]"
    and un: "dom (Successes (bresp_Batch hresp)) \<union> dom (Errors (bresp_Batch hresp)) =
        set (map hreq_URL (breq_Batch \<lparr>breq_Batch = example_batch\<rparr>))"
    and dis: "distinct (map hreq_URL (breq_Batch \<lparr>breq_Batch = example_batch\<rparr>)) \<longrightarrow>
        keys_as_claimed (breq_Batch \<lparr>breq_Batch = example_batch\<rparr>) hresp"
    by (elim exE conjE) (rule that, assumption+)
  have un': "dom (Successes (bresp_Batch hresp)) \<union> dom (Errors (bresp_Batch hresp)) =
        {''http://a'', ''http://b''}"
    using un u by (simp del: set_map)
  have k: "keys_as_claimed example_batch hresp"
    using dis d by (simp del: distinct_map)
  have ex: "\<exists>tr hresp.
      batchExecuteHandler example_Service [1, 0]
        (example_Request (Inl ''EOF'') example_batch) = Some tr \<and>
      replied tr = [(''batch'', BatchData hresp)] \<and>
      dom (Successes (bresp_Batch hresp)) \<union> dom (Errors (bresp_Batch hresp)) =
        {''http://a'', ''http://b''} \<and>
      keys_as_claimed example_batch hresp"
    by (rule exI [of _ tr], rule exI [of _ hresp]) (rule conjI [OF run conjI [OF rep conjI [OF un' k]]])
  show ?thesis
    by (rule conjI [OF g conjI [OF schedule_example
          conjI [OF returns_example_each(1) conjI [OF returns_example_each(2) conjI [OF d ex]]]]])
qed

section \<open>Every outcome of a batch is recorded\<close>

lemma recorded_collect: "recorded resp (collect resp h)"
  by (cases "resp_Error resp") (simp_all add: recorded_def collect_Errors collect_Successes)

lemma recorded_kept:
  assumes "recorded r h" and "\<not> same_entry r' r"
  shows "recorded r (collect r' h)"
  using assms
  by (cases "resp_Error r"; cases "resp_Error r'")
     (auto simp: recorded_def same_entry_def collect_Errors collect_Successes)

lemma recorded_fold:
  "recorded r h \<Longrightarrow> \<forall>r' \<in> set rs. \<not> same_entry r' r \<Longrightarrow> recorded r (fold collect rs h)"
  by (induction rs arbitrary: h) (simp_all add: recorded_kept)

lemma fold_take_Suc:
  "i < length rs \<Longrightarrow>
     fold collect (take (Suc i) rs) h = collect (rs ! i) (fold collect (take i rs) h)"
  by (simp add: take_Suc_conv_app_nth)

lemma in_set_drop_nth:
  assumes "x \<in> set (drop n xs)"
  shows "\<exists>j. n \<le> j \<and> j < length xs \<and> x = xs ! j"
proof -
  from assms obtain k where k: "k < length (drop n xs)" "drop n xs ! k = x"
    by (auto simp: in_set_conv_nth)
  then have "n + k < length xs" "x = xs ! (n + k)"
    by simp_all
  then show ?thesis
    by (intro exI [of _ "n + k"]) simp
qed

lemma recorded_at_the_end:
  assumes i: "i < length rs"
    and last: "\<forall>j. i < j \<and> j < length rs \<longrightarrow> \<not> same_entry (rs ! j) (rs ! i)"
  shows "recorded (rs ! i) (fold collect rs h)"
proof -
  have now: "recorded (rs ! i) (fold collect (take (Suc i) rs) h)"
    by (simp only: fold_take_Suc [OF i] recorded_collect)
  have later: "\<forall>r' \<in> set (drop (Suc i) rs). \<not> same_entry r' (rs ! i)"
  proof
    fix r' assume "r' \<in> set (drop (Suc i) rs)"
    from in_set_drop_nth [OF this]
    obtain j where j: "Suc i \<le> j" "j < length rs" "r' = rs ! j"
      by (elim exE conjE)
    from j(1) have "i < j" by simp
    with last j(2) have "\<not> same_entry (rs ! j) (rs ! i)" by blast
    then show "\<not> same_entry r' (rs ! i)" unfolding j(3) .
  qed
  have "fold collect (take (Suc i) rs @ drop (Suc i) rs) h =
      fold collect (drop (Suc i) rs) (fold collect (take (Suc i) rs) h)"
    by (simp only: fold_append comp_apply)
  then have eq: "fold collect rs h =
      fold collect (drop (Suc i) rs) (fold collect (take (Suc i) rs) h)"
    by (simp only: append_take_drop_id)
  show ?thesis
    by (subst eq) (rule recorded_fold [OF now later])
qed

lemma key_at_the_end:
  assumes "r \<in> set rs"
  shows "resp_URL r \<in>
    (if resp_Error r = None then dom (Successes (bresp_Batch (fold collect rs h)))
     else dom (Errors (bresp_Batch (fold collect rs h))))"
  using assms by (auto simp: dom_Successes_fold dom_Errors_fold)

lemma example_arrivals:
  "sent (goroutines example_Service [1, 0] example_batch) =
     [\<lparr>resp_URL = ''http://b'', resp_StatusCode = [], resp_Body = None,
       resp_Error = Some ''connection refused''\<rparr>,
      \<lparr>resp_URL = ''http://a'', resp_StatusCode = ''200'', resp_Body = Some 1,
       resp_Error = None\<rparr>]"
  by (simp add: goroutines_def example_batch_def sent_simps sent_doPOSTRequest outcome_def
      example_Service_def Sprintf_d_examples)

lemma example_loop:
  "fan_in (length example_batch)
     [\<lparr>resp_URL = ''http://b'', resp_StatusCode = [], resp_Body = None,
       resp_Error = Some ''connection refused''\<rparr>,
      \<lparr>resp_URL = ''http://a'', resp_StatusCode = ''200'', resp_Body = Some 1,
       resp_Error = None\<rparr>]
     new_httpBatchResponse = Some (example_result, [])"
  by (simp add: example_batch_def numeral_2_eq_2 collect_def new_httpBatchResponse_def
      example_result_def)

lemma overwritten_arrivals:
  "sent (goroutines refusing_Service [0, 1] twice_batch) =
     [\<lparr>resp_URL = ''http://a'', resp_StatusCode = [], resp_Body = None,
       resp_Error = Some ''connection refused''\<rparr>,
      \<lparr>resp_URL = ''http://a'', resp_StatusCode = [], resp_Body = None,
       resp_Error = Some ''timeout''\<rparr>]"
  by (simp add: goroutines_def twice_batch_def sent_simps sent_doPOSTRequest outcome_def
      refusing_Service_def)

lemma overwritten_run:
  "batchExecuteHandler refusing_Service [0, 1] (example_Request (Inl ''EOF'') twice_batch) =
     Some [Call ''http://a'' (Some 7),
           Send \<lparr>resp_URL = ''http://a'', resp_StatusCode = [], resp_Body = None,
                  resp_Error = Some ''connection refused''\<rparr>,
           Call ''http://a'' (Some 7),
           Send \<lparr>resp_URL = ''http://a'', resp_StatusCode = [], resp_Body = None,
                  resp_Error = Some ''timeout''\<rparr>,
           Reply ''batch'' (BatchData overwritten_result)]"
  by (simp add: batchExecuteHandler_def example_Request_def twice_batch_def goroutines_def
      doPOSTRequest_def refusing_Service_def Let_def sent_simps numeral_2_eq_2 collect_def
      new_httpBatchResponse_def reply_def overwritten_result_def)

text \<open>
  Claim C2, as stated, fails. With the URL \<open>http://a\<close> twice in the batch and both calls
  failing, the loop receives two outcomes, and the errors map of the reply holds the
  message of the second one only: the outcome received first, with the error
  \<open>connection refused\<close>, is in no map of the response replied.
\<close>

theorem later_error_replaces_earlier:
  "sent (goroutines refusing_Service [0, 1] twice_batch) =
     [\<lparr>resp_URL = ''http://a'', resp_StatusCode = [], resp_Body = None,
       resp_Error = Some ''connection refused''\<rparr>,
      \<lparr>resp_URL = ''http://a'', resp_StatusCode = [], resp_Body = None,
       resp_Error = Some ''timeout''\<rparr>] \<and>
   replied (the (batchExecuteHandler refusing_Service [0, 1]
                   (example_Request (Inl ''EOF'') twice_batch))) =
     [(''batch'', BatchData overwritten_result)] \<and>
   Errors (bresp_Batch overwritten_result) ''http://a'' = Some \<lparr>Message = ''timeout''\<rparr> \<and>
   Successes (bresp_Batch overwritten_result) ''http://a'' = None \<and>
   \<not> recorded \<lparr>resp_URL = ''http://a'', resp_StatusCode = [], resp_Body = None,
                resp_Error = Some ''connection refused''\<rparr> overwritten_result"
  unfolding overwritten_run overwritten_arrivals
  by (simp add: replied_simps recorded_def overwritten_result_def)

text \<open>
  Claim C2, amended. When every relay call of a batch of N requests returns, N outcomes
  arrive and the receive loop takes all of them, leaving nothing on the channel, before
  the handler replies (and with fewer than N to receive it does not get to the reply).
  Every outcome is recorded when it is received: \<open>{message}\<close> under its URL in the
  errors map when it carries an error, \<open>{statusCode, body}\<close> under its URL in the
  successes map otherwise. No outcome stops the loop: in the response replied, the URL
  of every outcome is a key of the map of its kind, and the entry under it is the
  outcome's own unless an outcome received later, for the same URL and of the same kind,
  has replaced it.
\<close>

theorem batch_records_every_outcome:
  assumes get: "Get_httpBatchRequest req = Inr hreq"
    and sch: "schedule (length (breq_Batch hreq)) sched"
    and ret: "\<forall>k < length (breq_Batch hreq). result_of s (breq_Batch hreq) k \<noteq> None"
    and rs: "rs = sent (goroutines s sched (breq_Batch hreq))"
  shows "\<exists>hresp.
           length rs = length (breq_Batch hreq) \<and>
           fan_in (length (breq_Batch hreq)) rs new_httpBatchResponse = Some (hresp, []) \<and>
           (\<forall>rs' h. length rs' < length (breq_Batch hreq) \<longrightarrow>
              fan_in (length (breq_Batch hreq)) rs' h = None) \<and>
           (\<exists>tr. batchExecuteHandler s sched req = Some tr \<and>
              replied tr = [(''batch'', BatchData hresp)]) \<and>
           (\<forall>i < length rs.
              recorded (rs ! i) (fold collect (take (Suc i) rs) new_httpBatchResponse)) \<and>
           (\<forall>i < length rs.
              resp_URL (rs ! i) \<in>
                (if resp_Error (rs ! i) = None then dom (Successes (bresp_Batch hresp))
                 else dom (Errors (bresp_Batch hresp)))) \<and>
           (\<forall>i < length rs.
              (\<forall>j. i < j \<and> j < length rs \<longrightarrow> \<not> same_entry (rs ! j) (rs ! i)) \<longrightarrow>
              recorded (rs ! i) hresp)"
proof -
  let ?n = "length (breq_Batch hreq)"
  let ?hresp = "fold collect rs new_httpBatchResponse"
  have len: "length rs = ?n"
    by (simp add: rs arrivals [OF sch ret] schedule_length [OF sch])
  have loop: "fan_in ?n rs new_httpBatchResponse = Some (?hresp, [])"
    by (simp add: fan_in_eq len)
  have wait: "\<forall>rs' h. length rs' < ?n \<longrightarrow> fan_in ?n rs' h = None"
    by (simp add: fan_in_eq)
  have run: "\<exists>tr. batchExecuteHandler s sched req = Some tr \<and>
      replied tr = [(''batch'', BatchData ?hresp)]"
    by (simp add: batch_returns [OF get sch ret] rs replied_simps replied_goroutines
        replied_reply)
  have step: "\<forall>i < length rs.
      recorded (rs ! i) (fold collect (take (Suc i) rs) new_httpBatchResponse)"
  proof (intro allI impI)
    fix i assume "i < length rs"
    then show "recorded (rs ! i) (fold collect (take (Suc i) rs) new_httpBatchResponse)"
      by (simp only: fold_take_Suc recorded_collect)
  qed
  have key: "\<forall>i < length rs.
      resp_URL (rs ! i) \<in>
        (if resp_Error (rs ! i) = None then dom (Successes (bresp_Batch ?hresp))
         else dom (Errors (bresp_Batch ?hresp)))"
  proof (intro allI impI)
    fix i assume "i < length rs"
    then have "rs ! i \<in> set rs" by simp
    then show "resp_URL (rs ! i) \<in>
        (if resp_Error (rs ! i) = None then dom (Successes (bresp_Batch ?hresp))
         else dom (Errors (bresp_Batch ?hresp)))"
      by (rule key_at_the_end)
  qed
  have kept: "\<forall>i < length rs.
      (\<forall>j. i < j \<and> j < length rs \<longrightarrow> \<not> same_entry (rs ! j) (rs ! i)) \<longrightarrow>
      recorded (rs ! i) ?hresp"
  proof (intro allI impI)
    fix i
    assume i: "i < length rs"
      and last: "\<forall>j. i < j \<and> j < length rs \<longrightarrow> \<not> same_entry (rs ! j) (rs ! i)"
    show "recorded (rs ! i) ?hresp"
      by (rule recorded_at_the_end [OF i last])
  qed
  show ?thesis
    by (rule exI [of _ ?hresp])
       (rule conjI [OF len conjI [OF loop conjI [OF wait conjI [OF run
          conjI [OF step conjI [OF key kept]]]]]])
qed

theorem batch_records_every_outcome_witness:
  "Get_httpBatchRequest (example_Request (Inl ''EOF'') example_batch) =
     Inr \<lparr>breq_Batch = example_batch\<rparr> \<and>
   schedule (length example_batch) [1, 0] \<and>
   result_of example_Service example_batch 0 \<noteq> None \<and>
   result_of example_Service example_batch 1 \<noteq> None \<and>
   replied (the (batchExecuteHandler example_Service [1, 0]
                   (example_Request (Inl ''EOF'') example_batch))) =
     [(''batch'', BatchData example_result)] \<and>
   recorded \<lparr>resp_URL = ''http://b'', resp_StatusCode = [], resp_Body = None,
              resp_Error = Some ''connection refused''\<rparr> example_result \<and>
   recorded \<lparr>resp_URL = ''http://a'', resp_StatusCode = ''200'', resp_Body = Some 1,
              resp_Error = None\<rparr> example_result"
proof -
  have g: "Get_httpBatchRequest (example_Request (Inl ''EOF'') example_batch) =
     Inr \<lparr>breq_Batch = example_batch\<rparr>"
    by (rule Get_example)
  have sch: "schedule (length (breq_Batch \<lparr>breq_Batch = example_batch\<rparr>)) [1, 0]"
    using schedule_example by simp
  have ret: "\<forall>k < length (breq_Batch \<lparr>breq_Batch = example_batch\<rparr>).
      result_of example_Service (breq_Batch \<lparr>breq_Batch = example_batch\<rparr>) k \<noteq> None"
    using returns_example by simp
  have rs: "sent (goroutines example_Service [1, 0] example_batch) =
      sent (goroutines example_Service [1, 0] (breq_Batch \<lparr>breq_Batch = example_batch\<rparr>))"
    by simp
  from batch_records_every_outcome [OF g sch ret rs]
  obtain hresp tr where
    loop: "fan_in (length (breq_Batch \<lparr>breq_Batch = example_batch\<rparr>))
        (sent (goroutines example_Service [1, 0] example_batch)) new_httpBatchResponse =
        Some (hresp, [])"
    and run: "batchExecuteHandler example_Service [1, 0]
        (example_Request (Inl ''EOF'') example_batch) = Some tr"
    and rep: "replied tr = [(''batch'', BatchData hresp)]"
    by (elim exE conjE) (rule that, assumption+)
  have sel: "breq_Batch \<lparr>breq_Batch = example_batch\<rparr> = example_batch"
    by simp
  from loop [unfolded sel example_arrivals example_loop] have "hresp = example_result"
    by simp
  with run rep have r: "replied (the (batchExecuteHandler example_Service [1, 0]
      (example_Request (Inl ''EOF'') example_batch))) = [(''batch'', BatchData example_result)]"
    by simp
  have b: "recorded \<lparr>resp_URL = ''http://b'', resp_StatusCode = [], resp_Body = None,
      resp_Error = Some ''connection refused''\<rparr> example_result"
    by (simp add: recorded_def example_result_def)
  have a: "recorded \<lparr>resp_URL = ''http://a'', resp_StatusCode = ''200'', resp_Body = Some 1,
      resp_Error = None\<rparr> example_result"
    by (simp add: recorded_def example_result_def)
  show ?thesis
    by (rule conjI [OF g conjI [OF schedule_example conjI [OF returns_example_each(1)
          conjI [OF returns_example_each(2) conjI [OF r conjI [OF b a]]]]]])
qed

end
